theory Spec2Isabelle
  imports Complex_Main
begin

section \<open>The ripple grid component (RippleGrid.svelte)\<close>

text \<open>
  The component keeps a lattice of grid points and a list of ripples, and redraws the
  lattice on a 2D canvas at every animation frame. This theory embeds its script block
  function by function.

  Conventions of the embedding.
  \<^item> A JavaScript number is modelled as a \<^typ>\<open>real\<close>: arithmetic is exact, and the
    values Infinity and NaN do not exist. The only place of the script where a
    non-finite number decides the control flow is the division by \<open>spacing\<close> in
    \<open>buildGrid\<close>; that case is written out there.
  \<^item> Loop counters and the results of \<open>Math.ceil\<close> are integers (\<^typ>\<open>int\<close>).
  \<^item> \<open>performance.now()\<close> is an input: every function that reads the clock takes the
    reading as an argument.
  \<^item> The module-level variables of the script are the fields of the record
    \<open>state\<close>; a function that assigns to them returns the updated record. The props
    (\<open>export let\<close>) are the record \<open>config\<close>.
  \<^item> What the script does to the browser is recorded in the state as well: the
    drawing calls issued on the canvas context, the animation-frame callbacks that
    are pending, the running interval timers and the attached listeners.
\<close>

subsection \<open>Data\<close>

record config =
  spacing :: real
  baseRadius :: real
  amplitude :: real
  rippleSpeed :: real
  rippleWidth :: real
  fadeSeconds :: real
  color :: string
  background :: string
  auto :: bool
  autoEveryMs :: real
  zIndex :: int

text \<open>The default values of the props.\<close>

definition defaults :: config where
  "defaults =
     \<lparr>spacing = 26, baseRadius = 1, amplitude = 2.4, rippleSpeed = 240,
      rippleWidth = 18, fadeSeconds = 2.2, color = ''rgba(118,255,3,0.9)'',
      background = ''transparent'', auto = False, autoEveryMs = 1600, zIndex = 0\<rparr>"

text \<open>A grid point \<open>{ x, y }\<close> and a ripple \<open>{ x, y, t, strength }\<close>.\<close>

record point =
  pt_x :: real
  pt_y :: real

record ripple =
  rp_x :: real
  rp_y :: real
  rp_t :: real
  rp_strength :: real

text \<open>An entry of the local array \<open>active\<close> of \<open>draw\<close>: \<open>{ x, y, R, sigma, w }\<close>.\<close>

record active_ripple =
  ar_x :: real
  ar_y :: real
  ar_R :: real
  ar_sigma :: real
  ar_w :: real

text \<open>
  The calls on the canvas context. \<open>Arc a x y rad\<close> stands for the filled disc drawn
  by \<open>globalAlpha = a; beginPath(); arc(x, y, rad, 0, 2\<pi>); fill()\<close>. The fill style
  of the discs (always \<open>color\<close>) and the reset of \<open>globalAlpha\<close> to 1 at the end of a
  frame are not recorded.
\<close>

datatype canvas_op =
  ClearRect real real real real
| FillRect string real real real real
| Arc real real real real

fun is_Arc :: "canvas_op \<Rightarrow> bool" where
  "is_Arc (Arc a x y rad) = True"
| "is_Arc (ClearRect x y w h) = False"
| "is_Arc (FillRect c x y w h) = False"

record state =
  ctx :: bool                \<comment> \<open>whether \<open>ctx\<close> holds a drawing context\<close>
  dpr :: real
  width :: real
  height :: real
  points :: "point list"
  ripples :: "ripple list"
  raf :: nat
  autoTimer :: nat
  lastEmit :: real
  canvasOps :: "canvas_op list"   \<comment> \<open>every call issued on the context so far\<close>
  pendingFrames :: "nat list"     \<comment> \<open>handles of the pending animation-frame callbacks\<close>
  intervals :: "nat list"         \<comment> \<open>handles of the running interval timers\<close>
  nextHandle :: nat               \<comment> \<open>the next handle the browser gives out\<close>
  listening :: bool               \<comment> \<open>pointermove and click listeners attached\<close>

text \<open>
  How a call can fail to return: it throws (here only the \<open>TypeError\<close> of a method
  call on \<open>null\<close>), or it runs forever.
\<close>

datatype failure = TypeError | Diverges

text \<open>The state of a component instance before \<open>onMount\<close> runs.\<close>

definition initial :: state where
  "initial =
     \<lparr>ctx = False, dpr = 1, width = 0, height = 0, points = [], ripples = [],
      raf = 0, autoTimer = 0, lastEmit = 0, canvasOps = [], pendingFrames = [],
      intervals = [], nextHandle = 1, listening = False\<rparr>"

subsection \<open>buildGrid\<close>

text \<open>The four local constants of \<open>buildGrid\<close>, as functions of what they read.\<close>

definition cols :: "real \<Rightarrow> real \<Rightarrow> int" where
  "cols w s = \<lceil>w / s\<rceil>"

definition rows :: "real \<Rightarrow> real \<Rightarrow> int" where
  "rows h s = \<lceil>h / s\<rceil>"

definition offsetX :: "real \<Rightarrow> real \<Rightarrow> real" where
  "offsetX w s = (w - (of_int (cols w s) - 1) * s) / 2"

definition offsetY :: "real \<Rightarrow> real \<Rightarrow> real" where
  "offsetY h s = (h - (of_int (rows h s) - 1) * s) / 2"

text \<open>
  The inner loop \<open>for (let c = 0; c < cols; c++) points.push(...)\<close>, started at
  counter \<open>c\<close> with the points pushed so far.
\<close>

function colLoop :: "real \<Rightarrow> real \<Rightarrow> real \<Rightarrow> int \<Rightarrow> int \<Rightarrow> int \<Rightarrow> point list \<Rightarrow> point list" where
  "colLoop ox oy s ncols r c pts =
     (if c < ncols
      then colLoop ox oy s ncols r (c + 1)
             (pts @ [\<lparr>pt_x = ox + of_int c * s, pt_y = oy + of_int r * s\<rparr>])
      else pts)"
  by pat_completeness auto
termination
  by (relation "measure (\<lambda>(ox, oy, s, ncols, r, c, pts). nat (ncols - c))") auto

declare colLoop.simps [simp del]

text \<open>The outer loop \<open>for (let r = 0; r < rows; r++)\<close>.\<close>

function rowLoop :: "real \<Rightarrow> real \<Rightarrow> real \<Rightarrow> int \<Rightarrow> int \<Rightarrow> int \<Rightarrow> point list \<Rightarrow> point list" where
  "rowLoop ox oy s ncols nrows r pts =
     (if r < nrows
      then rowLoop ox oy s ncols nrows (r + 1) (colLoop ox oy s ncols r 0 pts)
      else pts)"
  by pat_completeness auto
termination
  by (relation "measure (\<lambda>(ox, oy, s, ncols, nrows, r, pts). nat (nrows - r))") auto

declare rowLoop.simps [simp del]

text \<open>
  \<open>buildGrid\<close> itself.

  With \<open>spacing = 0\<close> the script divides by zero: \<open>height / 0\<close> is \<open>Infinity\<close> for a
  positive height, so \<open>rows\<close> is \<open>Infinity\<close> and the outer loop never ends; for a
  height of zero or below the quotient is \<open>NaN\<close> or \<open>-Infinity\<close>, the test
  \<open>r < rows\<close> fails at once and no point is pushed.
\<close>

definition buildGrid :: "config \<Rightarrow> state \<Rightarrow> failure + state" where
  "buildGrid cfg st =
     (if spacing cfg = 0
      then (if 0 < height st then Inl Diverges else Inr (st\<lparr>points := []\<rparr>))
      else Inr (st\<lparr>points :=
             rowLoop (offsetX (width st) (spacing cfg)) (offsetY (height st) (spacing cfg))
               (spacing cfg) (cols (width st) (spacing cfg)) (rows (height st) (spacing cfg))
               0 []\<rparr>))"

subsection \<open>resize\<close>

text \<open>What \<open>resize\<close> and \<open>onMount\<close> read from the page.\<close>

record env =
  clientWidth :: real
  clientHeight :: real
  innerWidth :: real
  innerHeight :: real
  devicePixelRatio :: real
  hasContext :: bool         \<comment> \<open>\<open>canvas.getContext('2d')\<close> is not \<open>null\<close>\<close>
  reduceMotion :: bool       \<comment> \<open>\<open>matchMedia('(prefers-reduced-motion: reduce)').matches\<close>\<close>

text \<open>
  \<open>resize\<close>, called with \<open>container\<close> and \<open>canvas\<close> bound (as they are once the
  component is mounted). \<open>a || b\<close> on numbers is \<open>b\<close> when \<open>a\<close> is zero. The size and
  style of the canvas element are not part of the state. When \<open>getContext\<close> gives
  \<open>null\<close>, the call \<open>ctx.setTransform\<close> throws before \<open>buildGrid\<close> is reached.
\<close>

definition resize :: "config \<Rightarrow> env \<Rightarrow> state \<Rightarrow> failure + state" where
  "resize cfg e st =
     (let d = max 1 (min 2 (if devicePixelRatio e = 0 then 1 else devicePixelRatio e));
          w = (if clientWidth e = 0 then innerWidth e else clientWidth e);
          h = (if clientHeight e = 0 then innerHeight e else clientHeight e)
      in if \<not> hasContext e then Inl TypeError
         else buildGrid cfg (st\<lparr>dpr := d, width := w, height := h, ctx := True\<rparr>))"

subsection \<open>The ripple store: addRipple and riplesCleanup\<close>

definition riplesCleanup :: "real \<Rightarrow> state \<Rightarrow> state" where
  "riplesCleanup cutoff st = st\<lparr>ripples := filter (\<lambda>r. rp_t r > cutoff) (ripples st)\<rparr>"

text \<open>\<open>addRipple(x, y, strength)\<close> with the clock reading \<open>t\<close> of its first line.\<close>

definition addRipple :: "config \<Rightarrow> real \<Rightarrow> real \<Rightarrow> real \<Rightarrow> real \<Rightarrow> state \<Rightarrow> state" where
  "addRipple cfg t x y strength st =
     (if t - lastEmit st < 90 \<and> strength < 1.1 then st
      else
        let st1 = st\<lparr>lastEmit := t\<rparr>;
            st2 = st1\<lparr>ripples := ripples st1 @
                    [\<lparr>rp_x = x, rp_y = y, rp_t = t, rp_strength = strength\<rparr>]\<rparr>;
            cutoff = t - fadeSeconds cfg * 1000 * 1.2
        in riplesCleanup cutoff st2)"

text \<open>
  A run of calls of \<open>addRipple\<close>, from whichever handlers, each with its clock reading,
  its coordinates and its strength.
\<close>

type_synonym insertion = "real \<times> real \<times> real \<times> real"

definition addRipples :: "config \<Rightarrow> insertion list \<Rightarrow> state \<Rightarrow> state" where
  "addRipples cfg calls st = fold (\<lambda>(t, x, y, strength). addRipple cfg t x y strength) calls st"

subsection \<open>The input handlers\<close>

record mouse_event =
  clientX :: real
  clientY :: real

record dom_rect =
  rect_left :: real
  rect_top :: real

text \<open>
  \<open>onPointer\<close> and \<open>onClick\<close>, with the rectangle that
  \<open>container.getBoundingClientRect()\<close> returns and the clock reading of \<open>addRipple\<close>.
\<close>

definition onPointer :: "config \<Rightarrow> real \<Rightarrow> dom_rect \<Rightarrow> mouse_event \<Rightarrow> state \<Rightarrow> state" where
  "onPointer cfg t rect e st =
     addRipple cfg t (clientX e - rect_left rect) (clientY e - rect_top rect) 1 st"

definition onClick :: "config \<Rightarrow> real \<Rightarrow> dom_rect \<Rightarrow> mouse_event \<Rightarrow> state \<Rightarrow> state" where
  "onClick cfg t rect e st =
     addRipple cfg t (clientX e - rect_left rect) (clientY e - rect_top rect) 1.6 st"

text \<open>
  The callback that \<open>startAuto\<close> hands to \<open>setInterval\<close>. It reads the clock three
  times: for \<open>x\<close> (\<open>tx\<close>), for \<open>y\<close> (\<open>ty\<close>) and inside \<open>addRipple\<close> (\<open>t\<close>).
\<close>

definition autoPulse :: "config \<Rightarrow> real \<Rightarrow> real \<Rightarrow> real \<Rightarrow> state \<Rightarrow> state" where
  "autoPulse cfg tx ty t st =
     (let x = width st * (0.45 + 0.1 * sin (tx / 1200));
          y = height st * (0.45 + 0.1 * cos (ty / 1400))
      in addRipple cfg t x y 0.9 st)"

definition stopAuto :: "state \<Rightarrow> state" where
  "stopAuto st =
     (let st1 = (if autoTimer st \<noteq> 0
                 then st\<lparr>intervals := removeAll (autoTimer st) (intervals st)\<rparr>
                 else st)
      in st1\<lparr>autoTimer := 0\<rparr>)"

definition startAuto :: "config \<Rightarrow> state \<Rightarrow> state" where
  "startAuto cfg st =
     (let st1 = stopAuto st
      in if \<not> auto cfg then st1
         else st1\<lparr>autoTimer := nextHandle st1,
                  intervals := intervals st1 @ [nextHandle st1],
                  nextHandle := nextHandle st1 + 1\<rparr>)"

subsection \<open>draw\<close>

text \<open>\<open>raf = requestAnimationFrame(draw)\<close>: the callback is queued under a new handle.\<close>

definition requestDraw :: "state \<Rightarrow> state" where
  "requestDraw st =
     st\<lparr>raf := nextHandle st,
        pendingFrames := pendingFrames st @ [nextHandle st],
        nextHandle := nextHandle st + 1\<rparr>"

text \<open>
  The first loop of \<open>draw\<close>, \<open>for (const r of ripples)\<close>, with the array \<open>active\<close>
  built so far. \<open>r.strength || 1\<close> is 1 when the strength is zero.
\<close>

fun activeLoop :: "config \<Rightarrow> real \<Rightarrow> ripple list \<Rightarrow> active_ripple list \<Rightarrow> active_ripple list" where
  "activeLoop cfg t [] active = active"
| "activeLoop cfg t (r # rs) active =
     (let age = (t - rp_t r) / 1000
      in if age > fadeSeconds cfg then activeLoop cfg t rs active
         else activeLoop cfg t rs
                (active @
                 [\<lparr>ar_x = rp_x r, ar_y = rp_y r,
                   ar_R = age * rippleSpeed cfg,
                   ar_sigma = rippleWidth cfg,
                   ar_w = exp (- age / fadeSeconds cfg) *
                          (if rp_strength r = 0 then 1 else rp_strength r)\<rparr>]))"

text \<open>\<open>Math.hypot\<close> of two numbers.\<close>

definition hypot :: "real \<Rightarrow> real \<Rightarrow> real" where
  "hypot dx dy = sqrt (dx ^ 2 + dy ^ 2)"

text \<open>The local \<open>d\<close> and the local \<open>g\<close> of the inner loop, for a point and an active ripple.\<close>

definition dist_d :: "point \<Rightarrow> active_ripple \<Rightarrow> real" where
  "dist_d p r = (let dx = pt_x p - ar_x r; dy = pt_y p - ar_y r in hypot dx dy)"

definition gauss_g :: "point \<Rightarrow> active_ripple \<Rightarrow> real" where
  "gauss_g p r =
     exp (- ((dist_d p r - ar_R r) ^ 2) / (2 * ar_sigma r ^ 2)) * ar_w r"

text \<open>The inner loop \<open>for (const r of active)\<close>, with the current \<open>bump\<close> and \<open>alpha\<close>.\<close>

fun influence :: "point \<Rightarrow> active_ripple list \<Rightarrow> real \<times> real \<Rightarrow> real \<times> real" where
  "influence p [] (bump, alpha) = (bump, alpha)"
| "influence p (r # rs) (bump, alpha) =
     (let g = gauss_g p r in influence p rs (bump + g, max alpha g))"

text \<open>The two values computed for a dot after the inner loop.\<close>

definition rad :: "config \<Rightarrow> real \<Rightarrow> real" where
  "rad cfg bump = max 0.2 (baseRadius cfg + amplitude cfg * min 1 bump)"

definition globalAlpha :: "real \<Rightarrow> real" where
  "globalAlpha alpha = 0.3 + 0.7 * max 0 (min 1 alpha)"

text \<open>The loop \<open>for (const p of points)\<close>, with the canvas calls issued so far.\<close>

fun drawDots :: "config \<Rightarrow> active_ripple list \<Rightarrow> point list \<Rightarrow> canvas_op list \<Rightarrow> canvas_op list" where
  "drawDots cfg active [] ops = ops"
| "drawDots cfg active (p # ps) ops =
     (case influence p active (0, 0) of
        (bump, alpha) \<Rightarrow>
          drawDots cfg active ps
            (ops @ [Arc (globalAlpha alpha) (pt_x p) (pt_y p) (rad cfg bump)]))"

text \<open>\<open>draw\<close> with its clock reading \<open>t\<close>.\<close>

definition draw :: "config \<Rightarrow> real \<Rightarrow> state \<Rightarrow> state" where
  "draw cfg t st =
     (if \<not> ctx st then st
      else
        let ops0 = canvasOps st @ [ClearRect 0 0 (width st) (height st)];
            ops1 = (if background cfg \<noteq> ''transparent''
                    then ops0 @ [FillRect (background cfg) 0 0 (width st) (height st)]
                    else ops0);
            active = activeLoop cfg t (ripples st) [];
            ops2 = drawDots cfg active (points st) ops1
        in requestDraw (st\<lparr>canvasOps := ops2\<rparr>))"

text \<open>
  A display refresh: the browser takes the callbacks that are pending and calls each
  one; all of them are \<open>draw\<close>, the only function the script ever passes to
  \<open>requestAnimationFrame\<close>. What they request is for the next refresh.
\<close>

definition animationFrame :: "config \<Rightarrow> real \<Rightarrow> state \<Rightarrow> state" where
  "animationFrame cfg t st =
     (draw cfg t ^^ length (pendingFrames st)) (st\<lparr>pendingFrames := []\<rparr>)"

subsection \<open>onMount\<close>

text \<open>
  The body of the \<open>onMount\<close> callback, with the clock reading for the \<open>draw()\<close> of its
  reduced-motion branch. The resize observer it creates calls \<open>resize\<close> later, on
  its own events.
\<close>

definition onMount :: "config \<Rightarrow> env \<Rightarrow> real \<Rightarrow> state \<Rightarrow> failure + state" where
  "onMount cfg e t st =
     (case resize cfg e st of
        Inl err \<Rightarrow> Inl err
      | Inr st1 \<Rightarrow>
          let st2 = (if \<not> reduceMotion e
                     then startAuto cfg (requestDraw st1)
                     else draw cfg t st1)
          in Inr (st2\<lparr>listening := True\<rparr>))"

text \<open>The number of frames drawn so far: every \<open>draw\<close> with a context clears the canvas once.\<close>

fun is_ClearRect :: "canvas_op \<Rightarrow> bool" where
  "is_ClearRect (ClearRect x y w h) = True"
| "is_ClearRect (FillRect c x y w h) = False"
| "is_ClearRect (Arc a x y r) = False"

definition framesDrawn :: "state \<Rightarrow> nat" where
  "framesDrawn st = length (filter is_ClearRect (canvasOps st))"

section \<open>Properties\<close>

subsection \<open>The grid builder\<close>

text \<open>Each loop appends the points of the counters it still has to visit, in order.\<close>

lemma colLoop_eq:
  "colLoop ox oy s ncols r c pts =
     pts @ map (\<lambda>c. \<lparr>pt_x = ox + of_int c * s, pt_y = oy + of_int r * s\<rparr>) [c..ncols - 1]"
proof (induction ox oy s ncols r c pts rule: colLoop.induct)
  case (1 ox oy s ncols r c pts)
  show ?case
  proof (cases "c < ncols")
    case True
    then have "[c..ncols - 1] = c # [c + 1..ncols - 1]"
      by (simp add: upto_rec1)
    with True "1.IH" show ?thesis
      by (subst colLoop.simps) simp
  next
    case False
    then show ?thesis
      by (subst colLoop.simps) simp
  qed
qed

lemma rowLoop_eq:
  "rowLoop ox oy s ncols nrows r pts =
     pts @ concat (map (\<lambda>r. map (\<lambda>c. \<lparr>pt_x = ox + of_int c * s, pt_y = oy + of_int r * s\<rparr>)
                              [0..ncols - 1]) [r..nrows - 1])"
proof (induction ox oy s ncols nrows r pts rule: rowLoop.induct)
  case (1 ox oy s ncols nrows r pts)
  show ?case
  proof (cases "r < nrows")
    case True
    then have "[r..nrows - 1] = r # [r + 1..nrows - 1]"
      by (simp add: upto_rec1)
    with True "1.IH" show ?thesis
      by (subst rowLoop.simps) (simp add: colLoop_eq)
  next
    case False
    then show ?thesis
      by (subst rowLoop.simps) simp
  qed
qed

lemma in_upto_pred: "(i::int) \<in> {0..n - 1} \<longleftrightarrow> 0 \<le> i \<and> i < n"
  by auto

lemma set_rowLoop:
  "set (rowLoop ox oy s ncols nrows 0 []) =
     {\<lparr>pt_x = ox + of_int c * s, pt_y = oy + of_int r * s\<rparr> | c r.
        0 \<le> c \<and> c < ncols \<and> 0 \<le> r \<and> r < nrows}"
proof -
  define mk where "mk r c = \<lparr>pt_x = ox + of_int c * s, pt_y = oy + of_int r * s\<rparr>" for r c :: int
  have "set (rowLoop ox oy s ncols nrows 0 []) = set (concat (map (\<lambda>r. map (mk r) [0..ncols - 1]) [0..nrows - 1]))"
    unfolding mk_def rowLoop_eq by simp
  also have "\<dots> = (\<Union>r\<in>{0..nrows - 1}. mk r ` {0..ncols - 1})"
    by simp
  also have "\<dots> = {mk r c | c r. c \<in> {0..ncols - 1} \<and> r \<in> {0..nrows - 1}}"
    by blast
  also have "\<dots> = {mk r c | c r. 0 \<le> c \<and> c < ncols \<and> 0 \<le> r \<and> r < nrows}"
    unfolding in_upto_pred by (simp only: conj_assoc)
  finally show ?thesis unfolding mk_def .
qed

lemma concat_map_Nil: "concat (map (\<lambda>r. []) xs) = []"
  by (induction xs) simp_all

lemma length_rowLoop:
  "length (rowLoop ox oy s ncols nrows 0 []) = nat ncols * nat nrows"
proof -
  have "length (rowLoop ox oy s ncols nrows 0 []) =
        sum_list (map (\<lambda>r. nat ncols) [0..nrows - 1])"
    by (simp add: rowLoop_eq length_concat comp_def)
  also have "\<dots> = nat ncols * nat nrows"
    by (simp add: sum_list_triv)
  finally show ?thesis .
qed

lemma distinct_rowLoop:
  assumes "s \<noteq> 0"
  shows "distinct (rowLoop ox oy s ncols nrows 0 [])"
proof (cases "0 < ncols")
  case True
  define mk where "mk r c = \<lparr>pt_x = ox + of_int c * s, pt_y = oy + of_int r * s\<rparr>" for r c :: int
  have mk_inj: "mk r c = mk r' c' \<longleftrightarrow> r = r' \<and> c = c'" for r c r' c'
    using assms by (auto simp: mk_def)
  have eq: "rowLoop ox oy s ncols nrows 0 [] = concat (map (\<lambda>r. map (mk r) [0..ncols - 1]) [0..nrows - 1])"
    unfolding mk_def rowLoop_eq by simp
  from True have hd: "[0..ncols - 1] = 0 # [1..ncols - 1]"
    by (simp add: upto_rec1)
  have "distinct (concat (map (\<lambda>r. map (mk r) [0..ncols - 1]) [0..nrows - 1]))"
  proof (rule distinct_concat)
    have "inj_on (\<lambda>r. map (mk r) [0..ncols - 1]) (set [0..nrows - 1])"
      by (rule inj_onI) (simp add: hd mk_inj)
    then show "distinct (map (\<lambda>r. map (mk r) [0..ncols - 1]) [0..nrows - 1])"
      by (simp add: distinct_map)
  next
    fix ys assume "ys \<in> set (map (\<lambda>r. map (mk r) [0..ncols - 1]) [0..nrows - 1])"
    then obtain r where "ys = map (mk r) [0..ncols - 1]" by auto
    moreover have "inj_on (mk r) (set [0..ncols - 1])"
      by (rule inj_onI) (simp add: mk_inj)
    ultimately show "distinct ys" by (simp add: distinct_map)
  next
    fix ys zs
    assume "ys \<in> set (map (\<lambda>r. map (mk r) [0..ncols - 1]) [0..nrows - 1])"
      and "zs \<in> set (map (\<lambda>r. map (mk r) [0..ncols - 1]) [0..nrows - 1])"
      and "ys \<noteq> zs"
    then obtain r r' where "ys = map (mk r) [0..ncols - 1]" "zs = map (mk r') [0..ncols - 1]" "r \<noteq> r'"
      by auto
    then show "set ys \<inter> set zs = {}"
      by (auto simp: mk_inj)
  qed
  with eq show ?thesis by simp
next
  case False
  then have "[0..ncols - 1] = []" by simp
  then show ?thesis by (simp add: rowLoop_eq concat_map_Nil)
qed


lemma cols_nonpos: "0 < s \<Longrightarrow> w \<le> 0 \<Longrightarrow> cols w s \<le> 0"
  by (simp add: cols_def ceiling_le_iff divide_le_0_iff)

lemma rows_nonpos: "0 < s \<Longrightarrow> h \<le> 0 \<Longrightarrow> rows h s \<le> 0"
  by (simp add: rows_def ceiling_le_iff divide_le_0_iff)

lemma rowLoop_no_cols: "ncols \<le> 0 \<Longrightarrow> rowLoop ox oy s ncols nrows 0 [] = []"
  by (simp add: rowLoop_eq concat_map_Nil)

lemma rowLoop_no_rows: "nrows \<le> 0 \<Longrightarrow> rowLoop ox oy s ncols nrows 0 [] = []"
  by (simp add: rowLoop_eq)

text \<open>
  Claim C4. For every surface width \<open>W\<close>, height \<open>H\<close> and spacing \<open>s > 0\<close>, \<open>buildGrid\<close>
  returns, changes nothing but \<open>points\<close>, and leaves there exactly the points
  \<open>(offsetX + c s, offsetY + r s)\<close> for \<open>0 \<le> c < cols\<close> and \<open>0 \<le> r < rows\<close>, each of them
  once, where \<open>cols = ceil (W / s)\<close>, \<open>rows = ceil (H / s)\<close>,
  \<open>offsetX = (W - (cols - 1) s) / 2\<close> and \<open>offsetY = (H - (rows - 1) s) / 2\<close>.
\<close>

theorem buildGrid_lattice:
  assumes "0 < spacing cfg"
  shows "\<exists>pts. buildGrid cfg st = Inr (st\<lparr>points := pts\<rparr>) \<and> distinct pts \<and>
           (let W = width st; H = height st; s = spacing cfg;
                ncols = \<lceil>W / s\<rceil>; nrows = \<lceil>H / s\<rceil>;
                ox = (W - (of_int ncols - 1) * s) / 2;
                oy = (H - (of_int nrows - 1) * s) / 2
            in set pts = {\<lparr>pt_x = ox + of_int c * s, pt_y = oy + of_int r * s\<rparr> | c r.
                            0 \<le> c \<and> c < ncols \<and> 0 \<le> r \<and> r < nrows})"
proof -
  let ?pts = "rowLoop (offsetX (width st) (spacing cfg)) (offsetY (height st) (spacing cfg))
                (spacing cfg) (cols (width st) (spacing cfg)) (rows (height st) (spacing cfg)) 0 []"
  from assms have "buildGrid cfg st = Inr (st\<lparr>points := ?pts\<rparr>)"
    by (simp add: buildGrid_def)
  moreover from assms have "distinct ?pts"
    by (simp add: distinct_rowLoop)
  moreover have "set ?pts = {\<lparr>pt_x = (width st - (of_int \<lceil>width st / spacing cfg\<rceil> - 1) * spacing cfg) / 2 + of_int c * spacing cfg,
                              pt_y = (height st - (of_int \<lceil>height st / spacing cfg\<rceil> - 1) * spacing cfg) / 2 + of_int r * spacing cfg\<rparr> | c r.
                            0 \<le> c \<and> c < \<lceil>width st / spacing cfg\<rceil> \<and> 0 \<le> r \<and> r < \<lceil>height st / spacing cfg\<rceil>}"
    unfolding set_rowLoop by (simp only: offsetX_def offsetY_def cols_def rows_def)
  ultimately show ?thesis
    unfolding Let_def by blast
qed

theorem buildGrid_lattice_witness:
  "0 < spacing defaults \<and>
   (\<exists>pts. buildGrid defaults (initial\<lparr>width := 52, height := 26\<rparr>)
            = Inr (initial\<lparr>width := 52, height := 26, points := pts\<rparr>) \<and> distinct pts \<and>
      set pts = {\<lparr>pt_x = 13 + of_int c * 26, pt_y = 13 + of_int r * 26\<rparr> | c r.
                   0 \<le> c \<and> c < 2 \<and> 0 \<le> r \<and> r < 1})"
  using buildGrid_lattice [of defaults "initial\<lparr>width := 52, height := 26\<rparr>"]
  by (simp add: defaults_def initial_def)

text \<open>
  Claim C2, as stated: on a 520 by 520 surface with the default spacing 26 the lattice
  has 20 columns and 20 rows and both offsets are zero. The offsets are not zero:
  \<open>(520 - 19 * 26) / 2 = 13\<close>.
\<close>

theorem default_grid_520_counterexample:
  "\<not> (cols 520 (spacing defaults) = 20 \<and> rows 520 (spacing defaults) = 20 \<and>
      offsetX 520 (spacing defaults) = 0 \<and> offsetY 520 (spacing defaults) = 0)"
  by (simp add: defaults_def offsetX_def offsetY_def cols_def rows_def)

text \<open>
  Claim C2, amended. On a 520 by 520 surface with the default spacing 26, \<open>buildGrid\<close>
  produces a lattice of 20 columns and 20 rows (400 distinct points), and \<open>offsetX\<close>
  and \<open>offsetY\<close> are both 13: the points are \<open>(13 + 26 c, 13 + 26 r)\<close> for
  \<open>0 \<le> c < 20\<close> and \<open>0 \<le> r < 20\<close>.
\<close>

theorem default_grid_520:
  "cols 520 (spacing defaults) = 20 \<and> rows 520 (spacing defaults) = 20 \<and>
   offsetX 520 (spacing defaults) = 13 \<and> offsetY 520 (spacing defaults) = 13 \<and>
   (\<exists>pts. buildGrid defaults (initial\<lparr>width := 520, height := 520\<rparr>)
             = Inr (initial\<lparr>width := 520, height := 520, points := pts\<rparr>) \<and>
          length pts = 400 \<and> distinct pts \<and>
          set pts = {\<lparr>pt_x = 13 + of_int c * 26, pt_y = 13 + of_int r * 26\<rparr> | c r.
                       0 \<le> c \<and> c < 20 \<and> 0 \<le> r \<and> r < 20})"
proof -
  have c: "cols 520 (spacing defaults) = 20" and r: "rows 520 (spacing defaults) = 20"
    by (simp_all add: defaults_def cols_def rows_def)
  have ox: "offsetX 520 (spacing defaults) = 13" and oy: "offsetY 520 (spacing defaults) = 13"
    by (simp_all add: defaults_def offsetX_def offsetY_def cols_def rows_def)
  have s: "spacing defaults = 26" by (simp add: defaults_def)
  let ?pts = "rowLoop 13 13 26 20 20 0 []"
  have "buildGrid defaults (initial\<lparr>width := 520, height := 520\<rparr>)
          = Inr (initial\<lparr>width := 520, height := 520, points := ?pts\<rparr>)"
    by (simp add: buildGrid_def c r ox oy) (simp add: s)
  moreover have "length ?pts = 400"
    by (simp add: length_rowLoop)
  moreover have "distinct ?pts"
    by (simp add: distinct_rowLoop)
  moreover have "set ?pts = {\<lparr>pt_x = 13 + of_int c * 26, pt_y = 13 + of_int r * 26\<rparr> | c r.
                       0 \<le> c \<and> c < 20 \<and> 0 \<le> r \<and> r < 20}"
    by (rule set_rowLoop)
  ultimately show ?thesis using c r ox oy by blast
qed


subsection \<open>The ripple store\<close>

text \<open>
  Claim C5. For every ripple list and every cutoff, after \<open>riplesCleanup\<close> no ripple of
  the store has a spawn time at or before the cutoff, every ripple with a spawn time
  after the cutoff is still in the store, no ripple is new, and nothing else of the
  state has changed.
\<close>

theorem riplesCleanup_prunes:
  "(\<forall>r \<in> set (ripples (riplesCleanup cutoff st)). \<not> rp_t r \<le> cutoff) \<and>
   (\<forall>r \<in> set (ripples st). cutoff < rp_t r \<longrightarrow> r \<in> set (ripples (riplesCleanup cutoff st))) \<and>
   set (ripples (riplesCleanup cutoff st)) \<subseteq> set (ripples st) \<and>
   riplesCleanup cutoff st = st\<lparr>ripples := ripples (riplesCleanup cutoff st)\<rparr>"
  by (auto simp: riplesCleanup_def)

theorem riplesCleanup_prunes_witness:
  "ripples (riplesCleanup 50
      (initial\<lparr>ripples := [\<lparr>rp_x = 1, rp_y = 2, rp_t = 10, rp_strength = 1\<rparr>,
                            \<lparr>rp_x = 3, rp_y = 4, rp_t = 50, rp_strength = 1\<rparr>,
                            \<lparr>rp_x = 5, rp_y = 6, rp_t = 100, rp_strength = 1.6\<rparr>]\<rparr>))
     = [\<lparr>rp_x = 5, rp_y = 6, rp_t = 100, rp_strength = 1.6\<rparr>] \<and>
   \<lparr>rp_x = 5, rp_y = 6, rp_t = 100, rp_strength = 1.6\<rparr>
     \<in> set (ripples (riplesCleanup 50
      (initial\<lparr>ripples := [\<lparr>rp_x = 1, rp_y = 2, rp_t = 10, rp_strength = 1\<rparr>,
                            \<lparr>rp_x = 3, rp_y = 4, rp_t = 50, rp_strength = 1\<rparr>,
                            \<lparr>rp_x = 5, rp_y = 6, rp_t = 100, rp_strength = 1.6\<rparr>]\<rparr>))) \<and>
   \<not> rp_t \<lparr>rp_x = 5, rp_y = 6, rp_t = 100, rp_strength = 1.6\<rparr> \<le> (50::real)"
  using riplesCleanup_prunes [of 50
      "initial\<lparr>ripples := [\<lparr>rp_x = 1, rp_y = 2, rp_t = 10, rp_strength = 1\<rparr>,
                            \<lparr>rp_x = 3, rp_y = 4, rp_t = 50, rp_strength = 1\<rparr>,
                            \<lparr>rp_x = 5, rp_y = 6, rp_t = 100, rp_strength = 1.6\<rparr>]\<rparr>"]
  by (simp add: riplesCleanup_def initial_def)

text \<open>The two branches of \<open>addRipple\<close>.\<close>

lemma addRipple_rejected:
  "t - lastEmit st < 90 \<Longrightarrow> strength < 1.1 \<Longrightarrow> addRipple cfg t x y strength st = st"
  by (simp add: addRipple_def)

lemma addRipple_accepted:
  "\<not> (t - lastEmit st < 90 \<and> strength < 1.1) \<Longrightarrow>
   addRipple cfg t x y strength st =
     st\<lparr>lastEmit := t,
        ripples := filter (\<lambda>r. rp_t r > t - fadeSeconds cfg * 1000 * 1.2)
                     (ripples st @ [\<lparr>rp_x = x, rp_y = y, rp_t = t, rp_strength = strength\<rparr>])\<rparr>"
  by (auto simp: addRipple_def riplesCleanup_def Let_def)

lemma addRipple_accepted_store:
  assumes "0 < fadeSeconds cfg" and "\<not> (t - lastEmit st < 90 \<and> strength < 1.1)"
  shows "ripples (addRipple cfg t x y strength st) =
           filter (\<lambda>r. rp_t r > t - fadeSeconds cfg * 1000 * 1.2) (ripples st) @
           [\<lparr>rp_x = x, rp_y = y, rp_t = t, rp_strength = strength\<rparr>]"
    and "lastEmit (addRipple cfg t x y strength st) = t"
  using assms by (simp_all add: addRipple_accepted)

text \<open>
  Claim C9. When the rate limiter rejects an insertion (less than 90 ms since
  \<open>lastEmit\<close> and a strength below 1.1), \<open>addRipple\<close> returns the state it was given:
  no ripple is appended, \<open>lastEmit\<close> keeps its value and no ripple is pruned.
\<close>

theorem addRipple_rejected_unchanged:
  "t - lastEmit st < 90 \<Longrightarrow> strength < 1.1 \<Longrightarrow> addRipple cfg t x y strength st = st"
  by (rule addRipple_rejected)

theorem addRipple_rejected_unchanged_witness:
  "(10000::real) -
     lastEmit (initial\<lparr>lastEmit := 9950,
                ripples := [\<lparr>rp_x = 1, rp_y = 2, rp_t = 0, rp_strength = 1\<rparr>,
                            \<lparr>rp_x = 1, rp_y = 2, rp_t = 9950, rp_strength = 1\<rparr>]\<rparr>) < 90 \<and>
   (1::real) < 1.1 \<and>
   addRipple defaults 10000 3 4 1
     (initial\<lparr>lastEmit := 9950,
        ripples := [\<lparr>rp_x = 1, rp_y = 2, rp_t = 0, rp_strength = 1\<rparr>,
                    \<lparr>rp_x = 1, rp_y = 2, rp_t = 9950, rp_strength = 1\<rparr>]\<rparr>)
   = initial\<lparr>lastEmit := 9950,
        ripples := [\<lparr>rp_x = 1, rp_y = 2, rp_t = 0, rp_strength = 1\<rparr>,
                    \<lparr>rp_x = 1, rp_y = 2, rp_t = 9950, rp_strength = 1\<rparr>]\<rparr>"
  using addRipple_rejected_unchanged [of 10000
     "initial\<lparr>lastEmit := 9950,
        ripples := [\<lparr>rp_x = 1, rp_y = 2, rp_t = 0, rp_strength = 1\<rparr>,
                    \<lparr>rp_x = 1, rp_y = 2, rp_t = 9950, rp_strength = 1\<rparr>]\<rparr>" 1 defaults 3 4]
  by (simp add: initial_def)

text \<open>
  Claim C10. The auto pulse calls \<open>addRipple\<close> with strength 0.9, so the rate limiter
  applies to it: a pulse that fires less than 90 ms after \<open>lastEmit\<close> changes nothing,
  and \<open>lastEmit\<close> is the time of the last accepted insertion of any strength.
\<close>

theorem autoPulse_rate_limited:
  "(t - lastEmit st < 90 \<longrightarrow> autoPulse cfg tx ty t st = st) \<and>
   (\<not> (t0 - lastEmit st < 90 \<and> s0 < 1.1) \<and> t - t0 < 90 \<longrightarrow>
      autoPulse cfg tx ty t (addRipple cfg t0 x0 y0 s0 st) = addRipple cfg t0 x0 y0 s0 st)"
proof -
  have a: "autoPulse cfg tx ty t st' = st'" if "t - lastEmit st' < 90" for st'
    using that by (simp add: autoPulse_def Let_def addRipple_rejected)
  have "lastEmit (addRipple cfg t0 x0 y0 s0 st) = t0" if "\<not> (t0 - lastEmit st < 90 \<and> s0 < 1.1)"
    using that by (simp add: addRipple_accepted)
  with a show ?thesis by simp
qed

theorem autoPulse_rate_limited_witness:
  "\<not> ((1000::real) - lastEmit initial < 90 \<and> (1.6::real) < 1.1) \<and> (1080::real) - 1000 < 90 \<and>
   ripples (addRipple defaults 1000 7 8 1.6 initial)
     = [\<lparr>rp_x = 7, rp_y = 8, rp_t = 1000, rp_strength = 1.6\<rparr>] \<and>
   autoPulse defaults 1080 1080 1080 (addRipple defaults 1000 7 8 1.6 initial)
     = addRipple defaults 1000 7 8 1.6 initial"
  using autoPulse_rate_limited [of 1080 "initial" defaults 1080 1080 1000 "1.6" 7 8]
  by (simp add: initial_def addRipple_def riplesCleanup_def defaults_def)


text \<open>\<open>lastEmit\<close> never falls behind a time that no later clock reading falls behind.\<close>

lemma lastEmit_addRipple_mono:
  "t1 \<le> lastEmit st \<Longrightarrow> t1 \<le> t \<Longrightarrow> t1 \<le> lastEmit (addRipple cfg t x y strength st)"
  by (simp add: addRipple_def riplesCleanup_def Let_def)

lemma lastEmit_addRipples_mono:
  "t1 \<le> lastEmit st \<Longrightarrow> \<forall>c \<in> set calls. t1 \<le> fst c \<Longrightarrow> t1 \<le> lastEmit (addRipples cfg calls st)"
proof (induction calls arbitrary: st)
  case Nil
  then show ?case by (simp add: addRipples_def)
next
  case (Cons c calls)
  obtain t x y s where c: "c = (t, x, y, s)" by (cases c)
  with Cons.prems have "t1 \<le> lastEmit (addRipple cfg t x y s st)"
    by (simp add: lastEmit_addRipple_mono)
  with Cons.IH [of "addRipple cfg t x y s st"] Cons.prems(2)
  have "t1 \<le> lastEmit (addRipples cfg calls (addRipple cfg t x y s st))" by simp
  then show ?case by (simp add: addRipples_def c)
qed

text \<open>
  Claim C3, amended. For a positive \<open>fadeSeconds\<close>: a pointer move that is accepted
  (90 ms or more after \<open>lastEmit\<close>) is appended to the store, and a second pointer move
  less than 90 ms after it is rejected and changes nothing, whatever insertions were
  attempted between the two (the clock not running backwards); an insertion with a
  strength of 1.1 or more, and so every click, is appended to the store whenever it
  comes.
\<close>

theorem rate_limit_after_accepted:
  assumes "0 < fadeSeconds cfg"
  shows "(\<not> t1 - lastEmit st < 90 \<and> t2 - t1 < 90 \<and> (\<forall>c \<in> set calls. t1 \<le> fst c) \<longrightarrow>
            ripples (onPointer cfg t1 rect1 e1 st) =
              filter (\<lambda>r. rp_t r > t1 - fadeSeconds cfg * 1000 * 1.2) (ripples st) @
              [\<lparr>rp_x = clientX e1 - rect_left rect1, rp_y = clientY e1 - rect_top rect1,
                rp_t = t1, rp_strength = 1\<rparr>] \<and>
            onPointer cfg t2 rect2 e2 (addRipples cfg calls (onPointer cfg t1 rect1 e1 st))
              = addRipples cfg calls (onPointer cfg t1 rect1 e1 st)) \<and>
         (1.1 \<le> strength \<longrightarrow>
            ripples (addRipple cfg t x y strength st) =
              filter (\<lambda>r. rp_t r > t - fadeSeconds cfg * 1000 * 1.2) (ripples st) @
              [\<lparr>rp_x = x, rp_y = y, rp_t = t, rp_strength = strength\<rparr>] \<and>
            lastEmit (addRipple cfg t x y strength st) = t) \<and>
         ripples (onClick cfg t rect e st) =
           filter (\<lambda>r. rp_t r > t - fadeSeconds cfg * 1000 * 1.2) (ripples st) @
           [\<lparr>rp_x = clientX e - rect_left rect, rp_y = clientY e - rect_top rect,
             rp_t = t, rp_strength = 1.6\<rparr>]"
proof (intro conjI impI)
  assume a: "\<not> t1 - lastEmit st < 90 \<and> t2 - t1 < 90 \<and> (\<forall>c \<in> set calls. t1 \<le> fst c)"
  then have acc: "\<not> (t1 - lastEmit st < 90 \<and> (1::real) < 1.1)" by simp
  show "ripples (onPointer cfg t1 rect1 e1 st) =
          filter (\<lambda>r. rp_t r > t1 - fadeSeconds cfg * 1000 * 1.2) (ripples st) @
          [\<lparr>rp_x = clientX e1 - rect_left rect1, rp_y = clientY e1 - rect_top rect1,
            rp_t = t1, rp_strength = 1\<rparr>]"
    unfolding onPointer_def by (rule addRipple_accepted_store(1) [OF assms acc])
  have "lastEmit (onPointer cfg t1 rect1 e1 st) = t1"
    unfolding onPointer_def by (rule addRipple_accepted_store(2) [OF assms acc])
  then have "t1 \<le> lastEmit (onPointer cfg t1 rect1 e1 st)" by simp
  moreover from a have "\<forall>c \<in> set calls. t1 \<le> fst c" by simp
  ultimately have "t1 \<le> lastEmit (addRipples cfg calls (onPointer cfg t1 rect1 e1 st))"
    by (rule lastEmit_addRipples_mono)
  with a have "t2 - lastEmit (addRipples cfg calls (onPointer cfg t1 rect1 e1 st)) < 90" by simp
  then show "onPointer cfg t2 rect2 e2 (addRipples cfg calls (onPointer cfg t1 rect1 e1 st))
               = addRipples cfg calls (onPointer cfg t1 rect1 e1 st)"
    by (subst onPointer_def) (simp add: addRipple_rejected)
next
  assume "1.1 \<le> strength"
  then have acc: "\<not> (t - lastEmit st < 90 \<and> strength < 1.1)" by simp
  show "ripples (addRipple cfg t x y strength st) =
          filter (\<lambda>r. rp_t r > t - fadeSeconds cfg * 1000 * 1.2) (ripples st) @
          [\<lparr>rp_x = x, rp_y = y, rp_t = t, rp_strength = strength\<rparr>]"
    by (rule addRipple_accepted_store(1) [OF assms acc])
  show "lastEmit (addRipple cfg t x y strength st) = t"
    by (rule addRipple_accepted_store(2) [OF assms acc])
next
  have acc: "\<not> (t - lastEmit st < 90 \<and> (1.6::real) < 1.1)" by simp
  show "ripples (onClick cfg t rect e st) =
          filter (\<lambda>r. rp_t r > t - fadeSeconds cfg * 1000 * 1.2) (ripples st) @
          [\<lparr>rp_x = clientX e - rect_left rect, rp_y = clientY e - rect_top rect,
            rp_t = t, rp_strength = 1.6\<rparr>]"
    unfolding onClick_def by (rule addRipple_accepted_store(1) [OF assms acc])
qed

theorem rate_limit_after_accepted_witness:
  "0 < fadeSeconds defaults \<and>
   \<not> (1000::real) - lastEmit initial < 90 \<and> (1050::real) - 1000 < 90 \<and>
   (1000::real) \<le> fst (1010::real, 110::real, 210::real, 1.6::real) \<and>
   ripples (onPointer defaults 1000 \<lparr>rect_left = 10, rect_top = 20\<rparr> \<lparr>clientX = 110, clientY = 220\<rparr> initial)
     = [\<lparr>rp_x = 100, rp_y = 200, rp_t = 1000, rp_strength = 1\<rparr>] \<and>
   ripples (addRipples defaults [(1010, 110, 210, 1.6)]
     (onPointer defaults 1000 \<lparr>rect_left = 10, rect_top = 20\<rparr> \<lparr>clientX = 110, clientY = 220\<rparr> initial))
     = [\<lparr>rp_x = 100, rp_y = 200, rp_t = 1000, rp_strength = 1\<rparr>,
        \<lparr>rp_x = 110, rp_y = 210, rp_t = 1010, rp_strength = 1.6\<rparr>] \<and>
   onPointer defaults 1050 \<lparr>rect_left = 10, rect_top = 20\<rparr> \<lparr>clientX = 120, clientY = 230\<rparr>
     (addRipples defaults [(1010, 110, 210, 1.6)]
       (onPointer defaults 1000 \<lparr>rect_left = 10, rect_top = 20\<rparr> \<lparr>clientX = 110, clientY = 220\<rparr> initial))
     = addRipples defaults [(1010, 110, 210, 1.6)]
       (onPointer defaults 1000 \<lparr>rect_left = 10, rect_top = 20\<rparr> \<lparr>clientX = 110, clientY = 220\<rparr> initial) \<and>
   ripples (onClick defaults 1010 \<lparr>rect_left = 10, rect_top = 20\<rparr> \<lparr>clientX = 120, clientY = 230\<rparr>
     (onPointer defaults 1000 \<lparr>rect_left = 10, rect_top = 20\<rparr> \<lparr>clientX = 110, clientY = 220\<rparr> initial))
     = [\<lparr>rp_x = 100, rp_y = 200, rp_t = 1000, rp_strength = 1\<rparr>,
        \<lparr>rp_x = 110, rp_y = 210, rp_t = 1010, rp_strength = 1.6\<rparr>]"
  using rate_limit_after_accepted [of defaults 1000 initial 1050 "[(1010, 110, 210, 1.6)]"
          "\<lparr>rect_left = 10, rect_top = 20\<rparr>" "\<lparr>clientX = 110, clientY = 220\<rparr>"
          "\<lparr>rect_left = 10, rect_top = 20\<rparr>" "\<lparr>clientX = 120, clientY = 230\<rparr>"]
  by (simp add: defaults_def initial_def onPointer_def onClick_def addRipple_def addRipples_def riplesCleanup_def)

text \<open>
  Claim C3, as stated, says that of any two pointer moves less than 90 ms apart only the
  first is accepted. After a mount, moves at 1000 ms, 1050 ms and 1100 ms: the move at
  1050 ms is rejected (50 ms after the accepted one), and the move at 1100 ms, 50 ms
  after it, is accepted, since the limiter measures from the last accepted insertion.
\<close>

theorem move_pair_second_accepted_counterexample:
  "(1100::real) - 1050 < 90 \<and>
   onPointer defaults 1050 \<lparr>rect_left = 0, rect_top = 0\<rparr> \<lparr>clientX = 2, clientY = 2\<rparr>
     (onPointer defaults 1000 \<lparr>rect_left = 0, rect_top = 0\<rparr> \<lparr>clientX = 1, clientY = 1\<rparr> initial)
     = onPointer defaults 1000 \<lparr>rect_left = 0, rect_top = 0\<rparr> \<lparr>clientX = 1, clientY = 1\<rparr> initial \<and>
   ripples (onPointer defaults 1100 \<lparr>rect_left = 0, rect_top = 0\<rparr> \<lparr>clientX = 3, clientY = 3\<rparr>
     (onPointer defaults 1050 \<lparr>rect_left = 0, rect_top = 0\<rparr> \<lparr>clientX = 2, clientY = 2\<rparr>
       (onPointer defaults 1000 \<lparr>rect_left = 0, rect_top = 0\<rparr> \<lparr>clientX = 1, clientY = 1\<rparr> initial)))
     = [\<lparr>rp_x = 1, rp_y = 1, rp_t = 1000, rp_strength = 1\<rparr>,
        \<lparr>rp_x = 3, rp_y = 3, rp_t = 1100, rp_strength = 1\<rparr>]"
  by (simp add: defaults_def initial_def onPointer_def addRipple_def riplesCleanup_def)

subsection \<open>The draw pass\<close>

text \<open>
  The loops of \<open>draw\<close> in closed form: \<open>bump\<close> is the sum and \<open>alpha\<close> the running
  maximum, from 0, of the responses \<open>g\<close> of the active ripples; one disc is drawn for
  each grid point, in order; \<open>active\<close> holds one entry for each ripple that is not older
  than \<open>fadeSeconds\<close>.
\<close>

lemma influence_eq:
  "influence p rs (bump, alpha) =
     (bump + sum_list (map (gauss_g p) rs), foldl max alpha (map (gauss_g p) rs))"
  by (induction rs arbitrary: bump alpha) (simp_all add: Let_def add.assoc)

lemma drawDots_eq:
  "drawDots cfg active ps ops =
     ops @ map (\<lambda>p. Arc (globalAlpha (foldl max 0 (map (gauss_g p) active))) (pt_x p) (pt_y p)
                      (rad cfg (sum_list (map (gauss_g p) active)))) ps"
  by (induction ps arbitrary: ops) (simp_all add: influence_eq)

lemma activeLoop_eq:
  "activeLoop cfg t rs active =
     active @
     map (\<lambda>r. \<lparr>ar_x = rp_x r, ar_y = rp_y r,
               ar_R = (t - rp_t r) / 1000 * rippleSpeed cfg,
               ar_sigma = rippleWidth cfg,
               ar_w = exp (- ((t - rp_t r) / 1000) / fadeSeconds cfg) *
                      (if rp_strength r = 0 then 1 else rp_strength r)\<rparr>)
       (filter (\<lambda>r. \<not> (t - rp_t r) / 1000 > fadeSeconds cfg) rs)"
  by (induction rs arbitrary: active) (simp_all add: Let_def)

lemma globalAlpha_range: "0.3 \<le> globalAlpha a \<and> globalAlpha a \<le> 1"
  by (simp add: globalAlpha_def max_def min_def)

lemma canvasOps_draw:
  "ctx st \<Longrightarrow>
   canvasOps (draw cfg t st) =
     canvasOps st @ [ClearRect 0 0 (width st) (height st)] @
     (if background cfg \<noteq> ''transparent''
      then [FillRect (background cfg) 0 0 (width st) (height st)] else []) @
     map (\<lambda>p. Arc (globalAlpha (foldl max 0 (map (gauss_g p) (activeLoop cfg t (ripples st) []))))
                  (pt_x p) (pt_y p)
                  (rad cfg (sum_list (map (gauss_g p) (activeLoop cfg t (ripples st) [])))))
       (points st)"
  by (simp add: draw_def requestDraw_def Let_def drawDots_eq)

lemma draw_no_ctx: "\<not> ctx st \<Longrightarrow> draw cfg t st = st"
  by (simp add: draw_def)

lemma draw_fields:
  "ctx st \<Longrightarrow> ctx (draw cfg t st) \<and> pendingFrames (draw cfg t st) = pendingFrames st @ [nextHandle st]
     \<and> raf (draw cfg t st) = nextHandle st \<and> nextHandle (draw cfg t st) = nextHandle st + 1
     \<and> points (draw cfg t st) = points st \<and> ripples (draw cfg t st) = ripples st
     \<and> lastEmit (draw cfg t st) = lastEmit st"
  by (simp add: draw_def requestDraw_def Let_def)

lemma framesDrawn_draw: "ctx st \<Longrightarrow> framesDrawn (draw cfg t st) = framesDrawn st + 1"
  by (simp add: framesDrawn_def canvasOps_draw filter_map comp_def)


lemma arcs_draw:
  "filter is_Arc (canvasOps (draw cfg t st)) =
     filter is_Arc (canvasOps st) @
     (if ctx st
      then map (\<lambda>p. Arc (globalAlpha (foldl max 0 (map (gauss_g p) (activeLoop cfg t (ripples st) []))))
                  (pt_x p) (pt_y p)
                  (rad cfg (sum_list (map (gauss_g p) (activeLoop cfg t (ripples st) [])))))
             (points st)
      else [])"
  by (cases "ctx st") (simp_all add: canvasOps_draw draw_no_ctx filter_map comp_def)

text \<open>
  Claim C7. In every frame that is drawn, the discs added to the canvas are those of the
  grid points, in order: the one of point \<open>p\<close> has radius
  \<open>max 0.2 (baseRadius + amplitude * min 1 bump)\<close> and opacity
  \<open>0.3 + 0.7 * max 0 (min 1 alpha)\<close>, where \<open>bump\<close> is the sum and \<open>alpha\<close> the maximum
  (from 0) of the responses of the active ripples at \<open>p\<close>. That opacity lies between
  0.3 and 1 for every \<open>alpha\<close>, and with no active ripple every disc is drawn at
  opacity 0.3.
\<close>

theorem draw_dot_radius_opacity:
  assumes "ctx st"
  shows "(let active = activeLoop cfg t (ripples st) [];
              bump = (\<lambda>p. sum_list (map (gauss_g p) active));
              alpha = (\<lambda>p. foldl max 0 (map (gauss_g p) active))
          in filter is_Arc (canvasOps (draw cfg t st)) =
               filter is_Arc (canvasOps st) @
               map (\<lambda>p. Arc (0.3 + 0.7 * max 0 (min 1 (alpha p))) (pt_x p) (pt_y p)
                            (max 0.2 (baseRadius cfg + amplitude cfg * min 1 (bump p))))
                 (points st)) \<and>
         (\<forall>alpha::real. 0.3 \<le> 0.3 + 0.7 * max 0 (min 1 alpha) \<and>
                         0.3 + 0.7 * max 0 (min 1 alpha) \<le> 1) \<and>
         (activeLoop cfg t (ripples st) [] = [] \<longrightarrow>
            filter is_Arc (canvasOps (draw cfg t st)) =
              filter is_Arc (canvasOps st) @
              map (\<lambda>p. Arc 0.3 (pt_x p) (pt_y p) (max 0.2 (baseRadius cfg))) (points st))"
proof (intro conjI allI impI)
  show "let active = activeLoop cfg t (ripples st) [];
            bump = (\<lambda>p. sum_list (map (gauss_g p) active));
            alpha = (\<lambda>p. foldl max 0 (map (gauss_g p) active))
        in filter is_Arc (canvasOps (draw cfg t st)) =
             filter is_Arc (canvasOps st) @
             map (\<lambda>p. Arc (0.3 + 0.7 * max 0 (min 1 (alpha p))) (pt_x p) (pt_y p)
                          (max 0.2 (baseRadius cfg + amplitude cfg * min 1 (bump p))))
               (points st)"
    using assms unfolding Let_def arcs_draw by (simp add: globalAlpha_def rad_def)
next
  fix alpha :: real
  show "0.3 \<le> 0.3 + 0.7 * max 0 (min 1 alpha)"
    using globalAlpha_range [of alpha] by (simp add: globalAlpha_def)
  show "0.3 + 0.7 * max 0 (min 1 alpha) \<le> 1"
    using globalAlpha_range [of alpha] by (simp add: globalAlpha_def)
next
  assume "activeLoop cfg t (ripples st) [] = []"
  with assms show "filter is_Arc (canvasOps (draw cfg t st)) =
              filter is_Arc (canvasOps st) @
              map (\<lambda>p. Arc 0.3 (pt_x p) (pt_y p) (max 0.2 (baseRadius cfg))) (points st)"
    unfolding arcs_draw by (simp add: globalAlpha_def rad_def)
qed

theorem draw_dot_radius_opacity_witness:
  "ctx (initial\<lparr>ctx := True, points := [\<lparr>pt_x = 13, pt_y = 13\<rparr>]\<rparr>) \<and>
   activeLoop defaults 5000 (ripples (initial\<lparr>ctx := True, points := [\<lparr>pt_x = 13, pt_y = 13\<rparr>]\<rparr>)) [] = [] \<and>
   filter is_Arc (canvasOps (draw defaults 5000 (initial\<lparr>ctx := True, points := [\<lparr>pt_x = 13, pt_y = 13\<rparr>]\<rparr>)))
     = [Arc 0.3 13 13 1]"
  using draw_dot_radius_opacity [of "initial\<lparr>ctx := True, points := [\<lparr>pt_x = 13, pt_y = 13\<rparr>]\<rparr>" defaults 5000]
  by (simp add: initial_def defaults_def)

text \<open>
  Claim C8. For every spacing \<open>s > 0\<close> and a surface whose width or height is zero or
  negative, \<open>buildGrid\<close> returns (it neither throws nor runs forever) with an empty
  \<open>points\<close>, and a \<open>draw\<close> on that state adds no disc to the canvas.
\<close>

theorem degenerate_surface_empty_grid:
  assumes "0 < spacing cfg" and "width st \<le> 0 \<or> height st \<le> 0"
  shows "buildGrid cfg st = Inr (st\<lparr>points := []\<rparr>) \<and>
         filter is_Arc (canvasOps (draw cfg t (st\<lparr>points := []\<rparr>))) = filter is_Arc (canvasOps st)"
proof
  from assms(2) have "rowLoop (offsetX (width st) (spacing cfg)) (offsetY (height st) (spacing cfg))
          (spacing cfg) (cols (width st) (spacing cfg)) (rows (height st) (spacing cfg)) 0 [] = []"
  proof
    assume "width st \<le> 0"
    with assms(1) have "cols (width st) (spacing cfg) \<le> 0" by (rule cols_nonpos)
    then show ?thesis by (rule rowLoop_no_cols)
  next
    assume "height st \<le> 0"
    with assms(1) have "rows (height st) (spacing cfg) \<le> 0" by (rule rows_nonpos)
    then show ?thesis by (rule rowLoop_no_rows)
  qed
  with assms(1) show "buildGrid cfg st = Inr (st\<lparr>points := []\<rparr>)"
    by (simp add: buildGrid_def)
  show "filter is_Arc (canvasOps (draw cfg t (st\<lparr>points := []\<rparr>))) = filter is_Arc (canvasOps st)"
    by (simp add: arcs_draw)
qed

theorem degenerate_surface_empty_grid_witness:
  "0 < spacing defaults \<and>
   (width (initial\<lparr>ctx := True, width := 0, height := 520\<rparr>) \<le> 0 \<or>
    height (initial\<lparr>ctx := True, width := 0, height := 520\<rparr>) \<le> 0) \<and>
   buildGrid defaults (initial\<lparr>ctx := True, width := 0, height := 520\<rparr>)
     = Inr (initial\<lparr>ctx := True, width := 0, height := 520\<rparr>) \<and>
   canvasOps (draw defaults 7 (initial\<lparr>ctx := True, width := 0, height := 520\<rparr>))
     = [ClearRect 0 0 0 520]"
  using degenerate_surface_empty_grid [of defaults "initial\<lparr>ctx := True, width := 0, height := 520\<rparr>" 7]
  by (simp add: defaults_def initial_def canvasOps_draw)


text \<open>On the ring the exponent of the Gaussian is zero.\<close>

lemma gauss_g_on_ring:
  "dist_d p a = ar_R a \<Longrightarrow> gauss_g p a = ar_w a"
  by (simp add: gauss_g_def)

text \<open>
  Claim C6. For a configuration with positive \<open>rippleWidth\<close> and \<open>fadeSeconds\<close> (with
  a zero the script divides by zero, which the reals do not show): for every entry
  of \<open>active\<close>, with weight \<open>w\<close> and ring radius \<open>R\<close>, and every point at distance \<open>R\<close>
  from its origin, the response \<open>g\<close> is \<open>w\<close>. In particular, with \<open>rippleSpeed = 240\<close>
  and \<open>fadeSeconds\<close> at least 0.5, a single ripple of strength 1 spawned at time 0 and
  looked at at 500 ms is active with \<open>R = 120\<close> and \<open>w = exp (-0.5 / fadeSeconds)\<close>, and
  a point at distance 120 from its origin gets \<open>g = exp 0 * exp (-0.5 / fadeSeconds)\<close>.
\<close>

theorem ring_peak_response:
  assumes "0 < rippleWidth cfg" and "0 < fadeSeconds cfg"
  shows "(\<forall>a \<in> set (activeLoop cfg t rs []). dist_d p a = ar_R a \<longrightarrow> gauss_g p a = ar_w a) \<and>
         (rippleSpeed cfg = 240 \<and> 0.5 \<le> fadeSeconds cfg \<and>
          hypot (pt_x p - x0) (pt_y p - y0) = 120 \<longrightarrow>
            (\<exists>a. activeLoop cfg 500 [\<lparr>rp_x = x0, rp_y = y0, rp_t = 0, rp_strength = 1\<rparr>] [] = [a] \<and>
                 ar_R a = 120 \<and> ar_w a = exp (- 0.5 / fadeSeconds cfg) \<and>
                 gauss_g p a = exp 0 * exp (- 0.5 / fadeSeconds cfg)))"
proof (intro conjI ballI impI)
  fix a assume "dist_d p a = ar_R a"
  then show "gauss_g p a = ar_w a" by (rule gauss_g_on_ring)
next
  assume h: "rippleSpeed cfg = 240 \<and> 0.5 \<le> fadeSeconds cfg \<and>
             hypot (pt_x p - x0) (pt_y p - y0) = 120"
  let ?a = "\<lparr>ar_x = x0, ar_y = y0, ar_R = 120, ar_sigma = rippleWidth cfg,
             ar_w = exp (- 0.5 / fadeSeconds cfg)\<rparr>"
  from h have "activeLoop cfg 500 [\<lparr>rp_x = x0, rp_y = y0, rp_t = 0, rp_strength = 1\<rparr>] [] = [?a]"
    by (simp add: Let_def)
  moreover from h have "dist_d p ?a = ar_R ?a"
    by (simp add: dist_d_def Let_def)
  then have "gauss_g p ?a = exp 0 * exp (- 0.5 / fadeSeconds cfg)"
    by (simp add: gauss_g_on_ring)
  ultimately show "\<exists>a. activeLoop cfg 500 [\<lparr>rp_x = x0, rp_y = y0, rp_t = 0, rp_strength = 1\<rparr>] [] = [a] \<and>
                 ar_R a = 120 \<and> ar_w a = exp (- 0.5 / fadeSeconds cfg) \<and>
                 gauss_g p a = exp 0 * exp (- 0.5 / fadeSeconds cfg)"
    by simp
qed

lemma hypot_120_0: "hypot 120 0 = 120"
  by (simp add: hypot_def)

theorem ring_peak_response_witness:
  "0 < rippleWidth defaults \<and> 0 < fadeSeconds defaults \<and> rippleSpeed defaults = 240 \<and> 0.5 \<le> fadeSeconds defaults \<and>
   hypot (pt_x \<lparr>pt_x = 130, pt_y = 7\<rparr> - 10) (pt_y \<lparr>pt_x = 130, pt_y = 7\<rparr> - 7) = 120 \<and>
   activeLoop defaults 500 [\<lparr>rp_x = 10, rp_y = 7, rp_t = 0, rp_strength = 1\<rparr>] []
     = [\<lparr>ar_x = 10, ar_y = 7, ar_R = 120, ar_sigma = 18, ar_w = exp (- 0.5 / 2.2)\<rparr>] \<and>
   gauss_g \<lparr>pt_x = 130, pt_y = 7\<rparr>
           \<lparr>ar_x = 10, ar_y = 7, ar_R = 120, ar_sigma = 18, ar_w = exp (- 0.5 / 2.2)\<rparr>
     = exp (- 0.5 / 2.2)"
  using ring_peak_response [of defaults 500 "[\<lparr>rp_x = 10, rp_y = 7, rp_t = 0, rp_strength = 1\<rparr>]"
          "\<lparr>pt_x = 130, pt_y = 7\<rparr>" 10 7]
  by (simp add: defaults_def hypot_120_0 Let_def dist_d_def)

subsection \<open>Mounting with reduced motion\<close>

text \<open>
  With a context and one callback pending, a display refresh draws one frame and
  leaves one callback pending again: the loop goes on for as many refreshes as come.
\<close>

lemma animationFrame_single:
  "length (pendingFrames st) = 1 \<Longrightarrow> animationFrame cfg t st = draw cfg t (st\<lparr>pendingFrames := []\<rparr>)"
  by (simp add: animationFrame_def)

lemma animationFrame_loop:
  assumes "ctx st" and "length (pendingFrames st) = 1"
  shows "ctx (animationFrame cfg t st) \<and> length (pendingFrames (animationFrame cfg t st)) = 1 \<and>
         framesDrawn (animationFrame cfg t st) = framesDrawn st + 1"
proof -
  let ?st = "st\<lparr>pendingFrames := []\<rparr>"
  have c: "ctx ?st" using assms(1) by simp
  have "framesDrawn ?st = framesDrawn st" by (simp add: framesDrawn_def)
  with draw_fields [OF c, of cfg t] framesDrawn_draw [OF c, of cfg t] show ?thesis
    by (simp add: animationFrame_single [OF assms(2)])
qed

lemma animation_never_stops:
  "ctx st \<Longrightarrow> length (pendingFrames st) = 1 \<Longrightarrow>
   framesDrawn (fold (animationFrame cfg) ts st) = framesDrawn st + length ts \<and>
   length (pendingFrames (fold (animationFrame cfg) ts st)) = 1"
proof (induction ts arbitrary: st)
  case Nil
  then show ?case by simp
next
  case (Cons t ts)
  from animationFrame_loop [OF Cons.prems, of cfg t]
  have "ctx (animationFrame cfg t st)" "length (pendingFrames (animationFrame cfg t st)) = 1"
    "framesDrawn (animationFrame cfg t st) = framesDrawn st + 1"
    by simp_all
  with Cons.IH [of "animationFrame cfg t st"] show ?case by simp
qed

text \<open>
  Claim C1 says that with a reduced-motion preference exactly one frame is drawn and no
  further tick is ever requested. The script calls \<open>draw()\<close> once in that branch, but
  \<open>draw\<close> ends with \<open>requestAnimationFrame(draw)\<close> whatever the preference: after
  \<open>onMount\<close> one frame is drawn and one callback is pending, and after any number
  \<open>n\<close> of display refreshes \<open>n + 1\<close> frames are drawn and one callback is pending.
\<close>

theorem reduced_motion_keeps_drawing:
  assumes "spacing cfg \<noteq> 0" and "hasContext e" and "reduceMotion e"
  shows "\<exists>st. onMount cfg e t initial = Inr st \<and> framesDrawn st = 1 \<and>
              pendingFrames st = [raf st] \<and>
              (\<forall>ts. framesDrawn (fold (animationFrame cfg) ts st) = 1 + length ts \<and>
                    length (pendingFrames (fold (animationFrame cfg) ts st)) = 1)"
proof -
  from assms(1,2) obtain st1 where r: "resize cfg e initial = Inr st1" and c: "ctx st1"
    and p: "pendingFrames st1 = []" and f: "framesDrawn st1 = 0"
    by (simp add: resize_def buildGrid_def Let_def initial_def framesDrawn_def)
  let ?st = "(draw cfg t st1)\<lparr>listening := True\<rparr>"
  from r assms(3) have m: "onMount cfg e t initial = Inr ?st"
    by (simp add: onMount_def)
  from draw_fields [OF c, of cfg t] framesDrawn_draw [OF c, of cfg t] p f
  have 1: "ctx ?st" "pendingFrames ?st = [raf ?st]" "framesDrawn ?st = 1"
    by (simp_all add: framesDrawn_def)
  then have "length (pendingFrames ?st) = 1" by simp
  from animation_never_stops [OF 1(1) this, of cfg] 1(3)
  have "\<forall>ts. framesDrawn (fold (animationFrame cfg) ts ?st) = 1 + length ts \<and>
             length (pendingFrames (fold (animationFrame cfg) ts ?st)) = 1"
    by simp
  with m 1 show ?thesis by blast
qed

theorem reduced_motion_keeps_drawing_witness:
  "spacing defaults \<noteq> 0 \<and>
   hasContext \<lparr>clientWidth = 520, clientHeight = 520, innerWidth = 1280, innerHeight = 720,
               devicePixelRatio = 1, hasContext = True, reduceMotion = True\<rparr> \<and>
   reduceMotion \<lparr>clientWidth = 520, clientHeight = 520, innerWidth = 1280, innerHeight = 720,
               devicePixelRatio = 1, hasContext = True, reduceMotion = True\<rparr> \<and>
   (\<exists>st. onMount defaults \<lparr>clientWidth = 520, clientHeight = 520, innerWidth = 1280, innerHeight = 720,
               devicePixelRatio = 1, hasContext = True, reduceMotion = True\<rparr> 100 initial = Inr st \<and>
         framesDrawn st = 1 \<and> pendingFrames st = [raf st] \<and>
         framesDrawn (fold (animationFrame defaults) [116, 133, 150] st) = 4 \<and>
         length (pendingFrames (fold (animationFrame defaults) [116, 133, 150] st)) = 1)"
proof -
  from reduced_motion_keeps_drawing [of defaults
      "\<lparr>clientWidth = 520, clientHeight = 520, innerWidth = 1280, innerHeight = 720,
               devicePixelRatio = 1, hasContext = True, reduceMotion = True\<rparr>" 100]
  obtain st where "onMount defaults \<lparr>clientWidth = 520, clientHeight = 520, innerWidth = 1280, innerHeight = 720,
               devicePixelRatio = 1, hasContext = True, reduceMotion = True\<rparr> 100 initial = Inr st"
     and "framesDrawn st = 1" and "pendingFrames st = [raf st]"
     and "\<forall>ts. framesDrawn (fold (animationFrame defaults) ts st) = 1 + length ts \<and>
                    length (pendingFrames (fold (animationFrame defaults) ts st)) = 1"
    by (auto simp: defaults_def)
  moreover from this(4) have "framesDrawn (fold (animationFrame defaults) [116, 133, 150] st) = 1 + length [116, 133, 150::real]
     \<and> length (pendingFrames (fold (animationFrame defaults) [116, 133, 150] st)) = 1"
    by blast
  ultimately show ?thesis by (simp add: defaults_def)
qed

end
